theory Spec2Isabelle
  imports Main
begin

section \<open>EventKampus: the registration ledger and its handlers (api/index.js)\<close>

text \<open>
  The development embeds the request handlers of \<^verbatim>\<open>api/index.js\<close> that read and
  write the tables \<^verbatim>\<open>"Event"\<close>, \<^verbatim>\<open>"TiketTipe"\<close> and \<^verbatim>\<open>"Registrasi"\<close>, together with
  the token middleware and the refresh handler. A handler is a function from the
  database before the request to the HTTP response and the database after it. Queries
  are list operations on the tables; a query is assumed not to fail for reasons outside
  the handler (lost connection, constraint of a schema that is not part of the source).
  Identifiers taken from the URL or the JSON body are natural numbers, that is, the
  value PostgreSQL reads from the parameter text. Prices and quotas are integers, as the
  validators of the ticket handler require and the driver returns for integer columns.
\<close>

subsection \<open>Tables\<close>

datatype role = PESERTA | ORGANISASI

datatype status_pembayaran = PENDING | LUNAS | BATAL

record user_row =
  u_id :: nat
  u_email :: string
  u_password :: string
  u_nama_lengkap :: string
  u_role :: role

record event_row =
  e_id :: nat
  e_nama_event :: string
  e_deskripsi :: string
  e_lokasi :: string
  e_created_by_user_id :: nat

record tiket_row =
  tt_id :: nat
  tt_event_id :: nat
  tt_nama_tiket :: string
  tt_harga :: int
  tt_kuota :: int

record registrasi_row =
  r_id :: nat
  r_event_id :: nat
  r_user_id :: nat
  r_tiket_tipe_id :: nat
  r_status_pembayaran :: status_pembayaran
  r_qr_code_unik :: string

text \<open>
  The database: the four tables in insertion order and the sequences that number new
  rows of \<^verbatim>\<open>"Event"\<close>, \<^verbatim>\<open>"TiketTipe"\<close> and \<^verbatim>\<open>"Registrasi"\<close>.
\<close>

record db =
  users :: "user_row list"
  events :: "event_row list"
  tikets :: "tiket_row list"
  registrasi :: "registrasi_row list"
  event_seq :: nat
  tiket_seq :: nat
  registrasi_seq :: nat

definition empty_db :: db where
  "empty_db = \<lparr>users = [], events = [], tikets = [], registrasi = [],
     event_seq = 1, tiket_seq = 1, registrasi_seq = 1\<rparr>"

subsection \<open>Strings: template literals, split, integer input\<close>

definition digit_char :: "nat \<Rightarrow> char" where
  "digit_char d = ''0123456789'' ! d"

definition is_digit :: "char \<Rightarrow> bool" where
  "is_digit c = (48 \<le> (of_char c :: nat) \<and> (of_char c :: nat) \<le> 57)"

definition digit_val :: "char \<Rightarrow> nat" where
  "digit_val c = of_char c - 48"

text \<open>
  \<^verbatim>\<open>`${n}`\<close> for a non-negative integer \<open>n\<close>: its decimal numeral (JavaScript prints
  integers below \<open>10^21\<close> this way; row identifiers and \<^verbatim>\<open>Date.now()\<close> are far below).
\<close>

fun string_of_nat :: "nat \<Rightarrow> string" where
  "string_of_nat n =
     (if n < 10 then [digit_char n]
      else string_of_nat (n div 10) @ [digit_char (n mod 10)])"

declare string_of_nat.simps [simp del]

text \<open>\<^verbatim>\<open>s.split(c)\<close> for a one-character separator: never empty, \<^verbatim>\<open>"".split(c)\<close> is \<^verbatim>\<open>[""]\<close>.\<close>

fun js_split :: "char \<Rightarrow> string \<Rightarrow> string list" where
  "js_split c [] = [[]]"
| "js_split c (x # xs) =
     (case js_split c xs of
        [] \<Rightarrow> (if x = c then [[], []] else [[x]])
      | p # ps \<Rightarrow> (if x = c then [] # p # ps else (x # p) # ps))"

text \<open>\<^verbatim>\<open>a[i]\<close> on an array: \<^verbatim>\<open>undefined\<close> (here \<open>None\<close>) out of range.\<close>

definition js_index :: "'a list \<Rightarrow> nat \<Rightarrow> 'a option" where
  "js_index xs i = (if i < length xs then Some (xs ! i) else None)"

text \<open>
  The integer PostgreSQL reads from a text parameter compared with an integer column,
  restricted to plain decimal numerals: a numeral gives its value, any other text is an
  input error (\<open>None\<close>), which the driver raises as an exception. PostgreSQL itself also
  accepts surrounding blanks and a sign, and rejects numerals beyond the range of the
  column. The function is used where the parameter is the numeral of a row identifier,
  as in the order identifiers the register handler makes; what is stated for every
  parameter text is stated on \<open>payment_notification_with\<close> below, for every integer
  input.
\<close>

definition pg_int_of_text :: "string \<Rightarrow> nat option" where
  "pg_int_of_text s =
     (if s \<noteq> [] \<and> list_all is_digit s
      then Some (foldl (\<lambda>a c. 10 * a + digit_val c) 0 s)
      else None)"

subsection \<open>Tokens (jsonwebtoken) and the middleware\<close>

text \<open>
  A token is its payload, the secret it was signed with and its expiry in seconds.
  \<^verbatim>\<open>jwt.verify\<close> checks the signature first and the expiry second; text that is no
  token at all fails like a token signed with another secret.
\<close>

record claims =
  c_userId :: nat
  c_email :: "string option"
  c_role :: "role option"
  c_type :: "string option"

record jwt =
  jwt_claims :: claims
  jwt_key :: string
  jwt_exp :: nat

datatype jwt_error = JsonWebTokenError | TokenExpiredError

definition jwt_sign :: "claims \<Rightarrow> string \<Rightarrow> nat \<Rightarrow> nat \<Rightarrow> jwt" where
  "jwt_sign payload secret expiresIn now =
     \<lparr>jwt_claims = payload, jwt_key = secret, jwt_exp = now div 1000 + expiresIn\<rparr>"

definition jwt_verify :: "jwt \<Rightarrow> string \<Rightarrow> nat \<Rightarrow> jwt_error + claims" where
  "jwt_verify token secret now =
     (if jwt_key token \<noteq> secret then Inl JsonWebTokenError
      else if jwt_exp token \<le> now div 1000 then Inl TokenExpiredError
      else Inr (jwt_claims token))"

record env =
  JWT_SECRET :: string
  JWT_REFRESH_SECRET :: string

subsection \<open>Responses\<close>

record pendaftaran =
  p_id :: nat
  p_status_pembayaran :: status_pembayaran
  p_qr_code_unik :: string

record register_body =
  rb_message :: string
  rb_pendaftaran :: pendaftaran
  rb_paymentToken :: "string option"
  rb_paymentUrl :: "string option"
  rb_isFree :: bool

record user_public =
  up_id :: nat
  up_email :: string
  up_nama_lengkap :: string
  up_role :: role

datatype body =
    Message string
  | Expired string
  | ValidationFailed "string list"
  | Registered register_body
  | Confirmed "(nat \<times> status_pembayaran) option"
  | Refreshed jwt user_public
  | EventCreated event_row
  | TiketCreated tiket_row

type_synonym response = "nat \<times> body"

definition authenticateToken :: "env \<Rightarrow> nat \<Rightarrow> jwt option \<Rightarrow> response + claims" where
  "authenticateToken cfg now token =
     (case token of
        None \<Rightarrow> Inl (401, Message ''Akses ditolak: Token tidak ada'')
      | Some t \<Rightarrow>
          (case jwt_verify t (JWT_SECRET cfg) now of
             Inl TokenExpiredError \<Rightarrow> Inl (401, Expired ''Token expired'')
           | Inl JsonWebTokenError \<Rightarrow> Inl (403, Message ''Akses ditolak: Token tidak valid'')
           | Inr user \<Rightarrow> Inr user))"

definition requireRole :: "role list \<Rightarrow> claims \<Rightarrow> response option" where
  "requireRole allowedRoles user =
     (case c_role user of
        None \<Rightarrow> Some (403, Message ''Akses ditolak: Role tidak terdeteksi'')
      | Some userRole \<Rightarrow>
          (if userRole \<notin> set allowedRoles
           then Some (403, Message ''Akses ditolak: Anda tidak memiliki izin'')
           else None))"

subsection \<open>The payment gateway (midtrans-client)\<close>

text \<open>
  The gateway is outside the repository. \<open>createTransaction\<close> answers a payment
  request with a token, \<open>notification\<close> verifies a webhook payload and answers with the
  transaction's state; \<open>None\<close> stands for a rejected promise (an exception in the
  handler).
\<close>

record item_detail =
  it_id :: nat
  it_price :: int
  it_quantity :: nat
  it_name :: string

record snap_parameter =
  sp_order_id :: string
  sp_gross_amount :: int
  sp_email :: string
  sp_first_name :: string
  sp_item_details :: "item_detail list"

record status_response =
  sr_order_id :: string
  sr_transaction_status :: string
  sr_fraud_status :: "string option"

record gateway =
  createTransaction :: "snap_parameter \<Rightarrow> string option"
  notification :: "string \<Rightarrow> status_response option"

subsection \<open>POST /api/events/:eventId/register\<close>

definition tiketQuery :: "db \<Rightarrow> nat \<Rightarrow> nat \<Rightarrow> (tiket_row \<times> event_row) list" where
  "tiketQuery s tiket_tipe_id eventId =
     [(tt, e). tt \<leftarrow> tikets s, e \<leftarrow> events s,
        tt_event_id tt = e_id e \<and> tt_id tt = tiket_tipe_id \<and> e_id e = eventId]"

definition registrasiCheckQuery :: "db \<Rightarrow> nat \<Rightarrow> nat \<Rightarrow> nat list" where
  "registrasiCheckQuery s userId eventId =
     map r_id (filter (\<lambda>r. r_user_id r = userId \<and> r_event_id r = eventId) (registrasi s))"

definition countQuery :: "db \<Rightarrow> nat \<Rightarrow> nat" where
  "countQuery s tiket_tipe_id =
     length (filter (\<lambda>r. r_tiket_tipe_id r = tiket_tipe_id) (registrasi s))"

definition insertRegistrasiQuery ::
  "db \<Rightarrow> nat \<Rightarrow> nat \<Rightarrow> nat \<Rightarrow> status_pembayaran \<Rightarrow> string \<Rightarrow> pendaftaran \<times> db" where
  "insertRegistrasiQuery s eventId userId tiket_tipe_id status qr =
     (let row = \<lparr>r_id = registrasi_seq s, r_event_id = eventId, r_user_id = userId,
                 r_tiket_tipe_id = tiket_tipe_id, r_status_pembayaran = status,
                 r_qr_code_unik = qr\<rparr>
      in (\<lparr>p_id = r_id row, p_status_pembayaran = r_status_pembayaran row,
           p_qr_code_unik = r_qr_code_unik row\<rparr>,
          s\<lparr>registrasi := registrasi s @ [row],
            registrasi_seq := Suc (registrasi_seq s)\<rparr>))"

definition userQuery :: "db \<Rightarrow> nat \<Rightarrow> user_row list" where
  "userQuery s userId = filter (\<lambda>u. u_id u = userId) (users s)"

definition qrCodeUnik :: "nat \<Rightarrow> nat \<Rightarrow> nat \<Rightarrow> string" where
  "qrCodeUnik eventId userId now =
     ''EVT-'' @ string_of_nat eventId @ ''-USR-'' @ string_of_nat userId @ ''-''
       @ string_of_nat now"

definition order_id :: "nat \<Rightarrow> nat \<Rightarrow> string" where
  "order_id registrasiId now =
     ''ORDER-'' @ string_of_nat registrasiId @ ''-'' @ string_of_nat now"

definition paymentUrl :: "string option \<Rightarrow> string option" where
  "paymentUrl paymentToken =
     (case paymentToken of
        None \<Rightarrow> None
      | Some t \<Rightarrow>
          (if t = [] then None
           else Some (''https://app.sandbox.midtrans.com/snap/v2/vtweb/'' @ t)))"

definition server_error :: response where
  "server_error = (500, Message ''Terjadi kesalahan pada server'')"

text \<open>
  The handler returns the response, the database after the request and the requests it
  sent to the gateway. \<open>now\<close> is \<^verbatim>\<open>Date.now()\<close>.
\<close>

definition register_event ::
  "env \<Rightarrow> gateway \<Rightarrow> db \<Rightarrow> nat \<Rightarrow> jwt option \<Rightarrow> nat \<Rightarrow> nat
     \<Rightarrow> response \<times> db \<times> snap_parameter list" where
  "register_event cfg snap s now token eventId tiket_tipe_id =
     (case authenticateToken cfg now token of
        Inl resp \<Rightarrow> (resp, s, [])
      | Inr user \<Rightarrow>
          (let userId = c_userId user in
           case tiketQuery s tiket_tipe_id eventId of
             [] \<Rightarrow> ((404, Message ''Tipe tiket tidak valid untuk event ini''), s, [])
           | (tiketData, ev) # _ \<Rightarrow>
               if registrasiCheckQuery s userId eventId \<noteq> []
               then ((400, Message ''Anda sudah terdaftar di event ini''), s, [])
               else if int (countQuery s tiket_tipe_id) \<ge> tt_kuota tiketData
               then ((400, Message ''Maaf, tiket untuk tipe ini sudah habis''), s, [])
               else
                 (let (pendaftaranBaru, s') =
                        insertRegistrasiQuery s eventId userId tiket_tipe_id PENDING
                          (qrCodeUnik eventId userId now)
                  in if tt_harga tiketData > 0
                     then
                       (case userQuery s' userId of
                          [] \<Rightarrow> (server_error, s', [])
                        | userData # _ \<Rightarrow>
                            (let parameter =
                               \<lparr>sp_order_id = order_id (p_id pendaftaranBaru) now,
                                sp_gross_amount = tt_harga tiketData,
                                sp_email = u_email userData,
                                sp_first_name = u_nama_lengkap userData,
                                sp_item_details =
                                  [\<lparr>it_id = tiket_tipe_id, it_price = tt_harga tiketData,
                                    it_quantity = 1,
                                    it_name = e_nama_event ev @ '' - '' @ tt_nama_tiket tiketData\<rparr>]\<rparr>
                             in case createTransaction snap parameter of
                                  None \<Rightarrow> (server_error, s', [parameter])
                                | Some paymentToken \<Rightarrow>
                                    ((201, Registered
                                       \<lparr>rb_message =
                                          ''Pendaftaran berhasil! Silakan selesaikan pembayaran.'',
                                        rb_pendaftaran = pendaftaranBaru,
                                        rb_paymentToken = Some paymentToken,
                                        rb_paymentUrl = paymentUrl (Some paymentToken),
                                        rb_isFree = (tt_harga tiketData = 0)\<rparr>),
                                     s', [parameter])))
                     else
                       ((201, Registered
                          \<lparr>rb_message = ''Pendaftaran berhasil!'',
                           rb_pendaftaran = pendaftaranBaru,
                           rb_paymentToken = None,
                           rb_paymentUrl = paymentUrl None,
                           rb_isFree = (tt_harga tiketData = 0)\<rparr>),
                        s', []))))"

subsection \<open>The register handler between its queries\<close>

text \<open>
  The handler awaits each query on its own and opens no transaction, so the requests of
  other clients can be served between its reads and its \<^verbatim>\<open>INSERT\<close>. The two functions
  below are the handler up to the capacity check (it only reads) and from the
  \<^verbatim>\<open>INSERT\<close> on, each taking the database as it is when that part runs. A request that
  moves from the first to the second carries the user, the ticket type and the event it
  has read.
\<close>

definition register_checks ::
  "env \<Rightarrow> db \<Rightarrow> nat \<Rightarrow> jwt option \<Rightarrow> nat \<Rightarrow> nat
     \<Rightarrow> response + claims \<times> tiket_row \<times> event_row" where
  "register_checks cfg s now token eventId tiket_tipe_id =
     (case authenticateToken cfg now token of
        Inl resp \<Rightarrow> Inl resp
      | Inr user \<Rightarrow>
          (case tiketQuery s tiket_tipe_id eventId of
             [] \<Rightarrow> Inl (404, Message ''Tipe tiket tidak valid untuk event ini'')
           | (tiketData, ev) # _ \<Rightarrow>
               if registrasiCheckQuery s (c_userId user) eventId \<noteq> []
               then Inl (400, Message ''Anda sudah terdaftar di event ini'')
               else if int (countQuery s tiket_tipe_id) \<ge> tt_kuota tiketData
               then Inl (400, Message ''Maaf, tiket untuk tipe ini sudah habis'')
               else Inr (user, tiketData, ev)))"

fun register_insert ::
  "gateway \<Rightarrow> db \<Rightarrow> nat \<Rightarrow> nat \<Rightarrow> nat \<Rightarrow> claims \<times> tiket_row \<times> event_row
     \<Rightarrow> response \<times> db \<times> snap_parameter list" where
  "register_insert snap s now eventId tiket_tipe_id (user, tiketData, ev) =
     (let userId = c_userId user;
          (pendaftaranBaru, s') =
             insertRegistrasiQuery s eventId userId tiket_tipe_id PENDING
               (qrCodeUnik eventId userId now)
      in if tt_harga tiketData > 0
         then
           (case userQuery s' userId of
              [] \<Rightarrow> (server_error, s', [])
            | userData # _ \<Rightarrow>
                (let parameter =
                   \<lparr>sp_order_id = order_id (p_id pendaftaranBaru) now,
                    sp_gross_amount = tt_harga tiketData,
                    sp_email = u_email userData,
                    sp_first_name = u_nama_lengkap userData,
                    sp_item_details =
                      [\<lparr>it_id = tiket_tipe_id, it_price = tt_harga tiketData,
                        it_quantity = 1,
                        it_name = e_nama_event ev @ '' - '' @ tt_nama_tiket tiketData\<rparr>]\<rparr>
                 in case createTransaction snap parameter of
                      None \<Rightarrow> (server_error, s', [parameter])
                    | Some paymentToken \<Rightarrow>
                        ((201, Registered
                           \<lparr>rb_message =
                              ''Pendaftaran berhasil! Silakan selesaikan pembayaran.'',
                            rb_pendaftaran = pendaftaranBaru,
                            rb_paymentToken = Some paymentToken,
                            rb_paymentUrl = paymentUrl (Some paymentToken),
                            rb_isFree = (tt_harga tiketData = 0)\<rparr>),
                         s', [parameter])))
         else
           ((201, Registered
              \<lparr>rb_message = ''Pendaftaran berhasil!'',
               rb_pendaftaran = pendaftaranBaru,
               rb_paymentToken = None,
               rb_paymentUrl = paymentUrl None,
               rb_isFree = (tt_harga tiketData = 0)\<rparr>),
            s', []))"

declare register_insert.simps [simp del]

subsection \<open>PATCH /api/organisasi/confirm-payment/:registrasiId\<close>

definition verificationQuery :: "db \<Rightarrow> nat \<Rightarrow> (nat \<times> status_pembayaran) list" where
  "verificationQuery s registrasiId =
     [(e_created_by_user_id e, r_status_pembayaran r).
        r \<leftarrow> registrasi s, e \<leftarrow> events s, r_event_id r = e_id e \<and> r_id r = registrasiId]"

text \<open>\<^verbatim>\<open>UPDATE "Registrasi" SET status_pembayaran = $1 WHERE id = $2\<close>: the table after it.\<close>

definition updateQuery :: "db \<Rightarrow> status_pembayaran \<Rightarrow> nat \<Rightarrow> db" where
  "updateQuery s status registrasiId =
     s\<lparr>registrasi :=
         map (\<lambda>r. if r_id r = registrasiId then r\<lparr>r_status_pembayaran := status\<rparr> else r)
           (registrasi s)\<rparr>"

text \<open>The rows of \<^verbatim>\<open>RETURNING id, status_pembayaran\<close>.\<close>

definition returning :: "db \<Rightarrow> nat \<Rightarrow> (nat \<times> status_pembayaran) list" where
  "returning s registrasiId =
     map (\<lambda>r. (r_id r, r_status_pembayaran r))
       (filter (\<lambda>r. r_id r = registrasiId) (registrasi s))"

definition confirm_payment ::
  "env \<Rightarrow> db \<Rightarrow> nat \<Rightarrow> jwt option \<Rightarrow> nat \<Rightarrow> response \<times> db" where
  "confirm_payment cfg s now token registrasiId =
     (case authenticateToken cfg now token of
        Inl resp \<Rightarrow> (resp, s)
      | Inr user \<Rightarrow>
          (case requireRole [ORGANISASI] user of
             Some resp \<Rightarrow> (resp, s)
           | None \<Rightarrow>
               (case verificationQuery s registrasiId of
                  [] \<Rightarrow> ((404, Message ''Data pendaftaran tidak ditemukan''), s)
                | (created_by_user_id, _) # _ \<Rightarrow>
                    if created_by_user_id \<noteq> c_userId user
                    then ((403, Message
                            ''Akses ditolak: Anda tidak berhak mengkonfirmasi pendaftaran ini''), s)
                    else
                      (let s' = updateQuery s LUNAS registrasiId
                       in ((200, Confirmed (js_index (returning s' registrasiId) 0)), s')))))"

subsection \<open>POST /api/payment/notification\<close>

definition newStatus :: "string \<Rightarrow> string option \<Rightarrow> status_pembayaran" where
  "newStatus transactionStatus fraudStatus =
     (if transactionStatus = ''capture''
      then (if fraudStatus = Some ''accept'' then LUNAS else PENDING)
      else if transactionStatus = ''settlement'' then LUNAS
      else if transactionStatus = ''cancel'' \<or> transactionStatus = ''deny''
                \<or> transactionStatus = ''expire'' then BATAL
      else if transactionStatus = ''pending'' then PENDING
      else PENDING)"

text \<open>
  The identifier is the second piece of the order identifier. A missing piece is sent
  as \<^verbatim>\<open>NULL\<close>, which equals no identifier; a piece that is no numeral makes the query
  fail, and the handler answers from its \<^verbatim>\<open>catch\<close> branch.
\<close>

definition payment_notification :: "gateway \<Rightarrow> db \<Rightarrow> string \<Rightarrow> response \<times> db" where
  "payment_notification snap s payload =
     (case notification snap payload of
        None \<Rightarrow> ((500, Message ''Error processing notification''), s)
      | Some statusResponse \<Rightarrow>
          (let orderId = sr_order_id statusResponse;
               registrasiId = js_index (js_split CHR ''-'' orderId) 1;
               status = newStatus (sr_transaction_status statusResponse)
                          (sr_fraud_status statusResponse)
           in case registrasiId of
                None \<Rightarrow> ((200, Message ''Notification received''), s)
              | Some txt \<Rightarrow>
                  (case pg_int_of_text txt of
                     None \<Rightarrow> ((500, Message ''Error processing notification''), s)
                   | Some rid \<Rightarrow>
                       ((200, Message ''Notification received''),
                        updateQuery s status rid))))"

text \<open>
  The same handler with the integer input of the database as a parameter: \<open>pg\<close> is
  whatever PostgreSQL reads from the parameter text (\<open>None\<close> when it raises an input
  error). Nothing is assumed about \<open>pg\<close>, so what is proved for every \<open>pg\<close> holds for
  blanks, signs and numerals beyond the range of the column as well.
\<close>

definition payment_notification_with ::
  "(string \<Rightarrow> nat option) \<Rightarrow> gateway \<Rightarrow> db \<Rightarrow> string \<Rightarrow> response \<times> db" where
  "payment_notification_with pg snap s payload =
     (case notification snap payload of
        None \<Rightarrow> ((500, Message ''Error processing notification''), s)
      | Some statusResponse \<Rightarrow>
          (let orderId = sr_order_id statusResponse;
               registrasiId = js_index (js_split CHR ''-'' orderId) 1;
               status = newStatus (sr_transaction_status statusResponse)
                          (sr_fraud_status statusResponse)
           in case registrasiId of
                None \<Rightarrow> ((200, Message ''Notification received''), s)
              | Some txt \<Rightarrow>
                  (case pg txt of
                     None \<Rightarrow> ((500, Message ''Error processing notification''), s)
                   | Some rid \<Rightarrow>
                       ((200, Message ''Notification received''),
                        updateQuery s status rid))))"

subsection \<open>POST /api/auth/refresh\<close>

definition refresh :: "env \<Rightarrow> db \<Rightarrow> nat \<Rightarrow> jwt option \<Rightarrow> response" where
  "refresh cfg s now refreshToken =
     (case refreshToken of
        None \<Rightarrow> (401, Message ''Refresh token tidak ada'')
      | Some t \<Rightarrow>
          (case jwt_verify t (JWT_REFRESH_SECRET cfg) now of
             Inl err \<Rightarrow> (403, Message ''Refresh token tidak valid'')
           | Inr decoded \<Rightarrow>
               (case userQuery s (c_userId decoded) of
                  [] \<Rightarrow> (404, Message ''User tidak ditemukan'')
                | user # _ \<Rightarrow>
                    (200, Refreshed
                       (jwt_sign
                          \<lparr>c_userId = u_id user, c_email = Some (u_email user),
                           c_role = Some (u_role user), c_type = None\<rparr>
                          (JWT_SECRET cfg) 3600 now)
                       \<lparr>up_id = u_id user, up_email = u_email user,
                        up_nama_lengkap = u_nama_lengkap user, up_role = u_role user\<rparr>))))"

subsection \<open>POST /api/events and POST /api/events/:eventId/tickets\<close>

text \<open>
  Strings are byte strings. \<open>is_space\<close> is the ASCII part of the blanks that the
  validators trim (the blank class of JavaScript regular expressions, which also has
  U+00A0 and other Unicode blanks); a name with such a blank at its ends is outside the
  model. Only the validation of names, descriptions and locations depends on it.
\<close>

definition is_space :: "char \<Rightarrow> bool" where
  "is_space c = (c \<in> set [CHR '' '', CHR 0x09, CHR 0x0A, CHR 0x0B, CHR 0x0C, CHR 0x0D])"

definition trim :: "string \<Rightarrow> string" where
  "trim s = rev (dropWhile is_space (rev (dropWhile is_space s)))"

definition sanitizeInput :: "string \<Rightarrow> string" where
  "sanitizeInput input =
     filter (\<lambda>c. c \<notin> set [CHR ''<'', CHR ''>'', CHR 0x22, CHR 0x27]) input"

text \<open>
  The body of a new event. \<open>ce_tanggal_mulai_iso8601\<close> is the outcome of the validator
  library's ISO 8601 check on the start date; the dates and the poster are not stored
  in the model's rows, no handler below reads them.
\<close>

record create_event_body =
  ce_nama_event :: string
  ce_deskripsi :: string
  ce_tanggal_mulai_iso8601 :: bool
  ce_lokasi :: string

definition create_event_errors :: "create_event_body \<Rightarrow> string list" where
  "create_event_errors b =
     (if 3 \<le> length (trim (ce_nama_event b)) \<and> length (trim (ce_nama_event b)) \<le> 200
      then [] else [''Nama event 3-200 karakter''])
     @ (if 10 \<le> length (trim (ce_deskripsi b)) then [] else [''Deskripsi minimal 10 karakter''])
     @ (if ce_tanggal_mulai_iso8601 b then [] else [''Format tanggal tidak valid''])
     @ (if trim (ce_lokasi b) \<noteq> [] then [] else [''Lokasi wajib diisi''])"

definition create_event ::
  "env \<Rightarrow> db \<Rightarrow> nat \<Rightarrow> jwt option \<Rightarrow> create_event_body \<Rightarrow> response \<times> db" where
  "create_event cfg s now token b =
     (case authenticateToken cfg now token of
        Inl resp \<Rightarrow> (resp, s)
      | Inr user \<Rightarrow>
          (case requireRole [ORGANISASI] user of
             Some resp \<Rightarrow> (resp, s)
           | None \<Rightarrow>
               if create_event_errors b \<noteq> []
               then ((400, ValidationFailed (create_event_errors b)), s)
               else
                 (let eventBaru =
                        \<lparr>e_id = event_seq s,
                         e_nama_event = sanitizeInput (trim (ce_nama_event b)),
                         e_deskripsi = sanitizeInput (trim (ce_deskripsi b)),
                         e_lokasi = sanitizeInput (trim (ce_lokasi b)),
                         e_created_by_user_id = c_userId user\<rparr>
                  in ((201, EventCreated eventBaru),
                      s\<lparr>events := events s @ [eventBaru],
                        event_seq := Suc (event_seq s)\<rparr>))))"

definition create_ticket_errors :: "string \<Rightarrow> int \<Rightarrow> int \<Rightarrow> string list" where
  "create_ticket_errors nama_tiket harga kuota =
     (if 3 \<le> length (trim nama_tiket) \<and> length (trim nama_tiket) \<le> 100
      then [] else [''Nama tiket 3-100 karakter''])
     @ (if 0 \<le> harga then [] else [''Harga harus angka >= 0''])
     @ (if 1 \<le> kuota then [] else [''Kuota minimal 1''])"

definition eventCheckQuery :: "db \<Rightarrow> nat \<Rightarrow> nat list" where
  "eventCheckQuery s eventId =
     map e_created_by_user_id (filter (\<lambda>e. e_id e = eventId) (events s))"

definition create_ticket ::
  "env \<Rightarrow> db \<Rightarrow> nat \<Rightarrow> jwt option \<Rightarrow> nat \<Rightarrow> string \<Rightarrow> int \<Rightarrow> int \<Rightarrow> response \<times> db" where
  "create_ticket cfg s now token eventId nama_tiket harga kuota =
     (case authenticateToken cfg now token of
        Inl resp \<Rightarrow> (resp, s)
      | Inr user \<Rightarrow>
          (case requireRole [ORGANISASI] user of
             Some resp \<Rightarrow> (resp, s)
           | None \<Rightarrow>
               if create_ticket_errors nama_tiket harga kuota \<noteq> []
               then ((400, ValidationFailed (create_ticket_errors nama_tiket harga kuota)), s)
               else
                 (case eventCheckQuery s eventId of
                    [] \<Rightarrow> ((404, Message ''Event tidak ditemukan''), s)
                  | eventOwnerId # _ \<Rightarrow>
                      if eventOwnerId \<noteq> c_userId user
                      then ((403, Message ''Akses ditolak: Anda bukan pemilik event ini''), s)
                      else
                        (let tiketBaru =
                               \<lparr>tt_id = tiket_seq s, tt_event_id = eventId,
                                tt_nama_tiket = sanitizeInput (trim nama_tiket),
                                tt_harga = harga, tt_kuota = kuota\<rparr>
                         in ((201, TiketCreated tiketBaru),
                             s\<lparr>tikets := tikets s @ [tiketBaru],
                               tiket_seq := Suc (tiket_seq s)\<rparr>)))))"

subsection \<open>Sequences of requests\<close>

text \<open>
  The requests that write \<^verbatim>\<open>"Event"\<close>, \<^verbatim>\<open>"TiketTipe"\<close> or \<^verbatim>\<open>"Registrasi"\<close>. Requests are
  served one after the other, each at its own time.
\<close>

datatype request =
    CreateEvent "jwt option" create_event_body
  | CreateTicket "jwt option" nat string int int
  | Register "jwt option" nat nat
  | ConfirmPayment "jwt option" nat
  | Notification string

fun handle :: "env \<Rightarrow> gateway \<Rightarrow> db \<Rightarrow> nat \<times> request \<Rightarrow> db" where
  "handle cfg snap s (now, CreateEvent token b) = snd (create_event cfg s now token b)"
| "handle cfg snap s (now, CreateTicket token eventId nama_tiket harga kuota) =
     snd (create_ticket cfg s now token eventId nama_tiket harga kuota)"
| "handle cfg snap s (now, Register token eventId tiket_tipe_id) =
     fst (snd (register_event cfg snap s now token eventId tiket_tipe_id))"
| "handle cfg snap s (now, ConfirmPayment token registrasiId) =
     snd (confirm_payment cfg s now token registrasiId)"
| "handle cfg snap s (now, Notification payload) = snd (payment_notification snap s payload)"

definition run :: "env \<Rightarrow> gateway \<Rightarrow> db \<Rightarrow> (nat \<times> request) list \<Rightarrow> db" where
  "run cfg snap s reqs = foldl (handle cfg snap) s reqs"

subsection \<open>Invariants of the ledger\<close>

definition nonCancelledCount :: "db \<Rightarrow> nat \<Rightarrow> nat" where
  "nonCancelledCount s tiket_tipe_id =
     length (filter (\<lambda>r. r_tiket_tipe_id r = tiket_tipe_id \<and> r_status_pembayaran r \<noteq> BATAL)
       (registrasi s))"

definition within_quota :: "db \<Rightarrow> bool" where
  "within_quota s = list_all (\<lambda>tt. int (countQuery s (tt_id tt)) \<le> tt_kuota tt) (tikets s)"

definition tikets_wf :: "db \<Rightarrow> bool" where
  "tikets_wf s =
     (distinct (map tt_id (tikets s))
      \<and> list_all (\<lambda>tt. tt_id tt < tiket_seq s) (tikets s)
      \<and> list_all (\<lambda>r. r_tiket_tipe_id r < tiket_seq s) (registrasi s))"

definition one_per_user_event :: "db \<Rightarrow> bool" where
  "one_per_user_event s = distinct (map (\<lambda>r. (r_user_id r, r_event_id r)) (registrasi s))"

text \<open>What the capacity check relies on: the quota bound and well-numbered ticket types.\<close>

definition ledger_inv :: "db \<Rightarrow> bool" where
  "ledger_inv s = (within_quota s \<and> tikets_wf s)"

subsection \<open>A small campus: data for the concrete checks\<close>

definition cfg0 :: env where
  "cfg0 = \<lparr>JWT_SECRET = ''access-secret'', JWT_REFRESH_SECRET = ''refresh-secret''\<rparr>"

definition acme :: user_row where
  "acme = \<lparr>u_id = 1, u_email = ''acme@example.com'', u_password = ''$2a$12$hash1'',
     u_nama_lengkap = ''Acme'', u_role = ORGANISASI\<rparr>"

definition alice :: user_row where
  "alice = \<lparr>u_id = 2, u_email = ''alice@example.com'', u_password = ''$2a$12$hash2'',
     u_nama_lengkap = ''Alice'', u_role = PESERTA\<rparr>"

definition bob :: user_row where
  "bob = \<lparr>u_id = 3, u_email = ''bob@example.com'', u_password = ''$2a$12$hash3'',
     u_nama_lengkap = ''Bob'', u_role = PESERTA\<rparr>"

definition access_token :: "user_row \<Rightarrow> jwt" where
  "access_token u =
     jwt_sign \<lparr>c_userId = u_id u, c_email = Some (u_email u), c_role = Some (u_role u),
                c_type = None\<rparr> ''access-secret'' 3600 0"

definition refresh_token :: "nat \<Rightarrow> jwt" where
  "refresh_token userId =
     jwt_sign \<lparr>c_userId = userId, c_email = None, c_role = None, c_type = Some ''refresh''\<rparr>
       ''refresh-secret'' 604800 0"

definition techfest :: event_row where
  "techfest = \<lparr>e_id = 1, e_nama_event = ''TechFest'', e_deskripsi = ''A campus technology fair'',
     e_lokasi = ''Aula'', e_created_by_user_id = 1\<rparr>"

definition free_entry :: tiket_row where
  "free_entry = \<lparr>tt_id = 1, tt_event_id = 1, tt_nama_tiket = ''Free Entry'', tt_harga = 0,
     tt_kuota = 1\<rparr>"

definition vip :: tiket_row where
  "vip = \<lparr>tt_id = 2, tt_event_id = 1, tt_nama_tiket = ''VIP'', tt_harga = 50000, tt_kuota = 2\<rparr>"

text \<open>TechFest with its two ticket types and nobody registered.\<close>

definition db_open :: db where
  "db_open = \<lparr>users = [acme, alice, bob], events = [techfest], tikets = [free_entry, vip],
     registrasi = [], event_seq = 2, tiket_seq = 3, registrasi_seq = 1\<rparr>"

definition alice_row :: "nat \<Rightarrow> status_pembayaran \<Rightarrow> registrasi_row" where
  "alice_row tiket_tipe_id status =
     \<lparr>r_id = 1, r_event_id = 1, r_user_id = 2, r_tiket_tipe_id = tiket_tipe_id,
      r_status_pembayaran = status, r_qr_code_unik = ''EVT-1-USR-2-3000''\<rparr>"

text \<open>The same after Alice took a ticket, with the status her row has now.\<close>

definition db_alice :: "nat \<Rightarrow> status_pembayaran \<Rightarrow> db" where
  "db_alice tiket_tipe_id status =
     db_open\<lparr>registrasi := [alice_row tiket_tipe_id status], registrasi_seq := 2\<rparr>"

text \<open>
  Two requests that passed the checks of the register handler on the open database
  before either inserted: Alice and Bob for the only free ticket, and Alice twice (a
  double submit). The databases are the ones after both inserts.
\<close>

definition passed_checks :: "user_row \<Rightarrow> claims \<times> tiket_row \<times> event_row" where
  "passed_checks u = (jwt_claims (access_token u), free_entry, techfest)"

definition db_oversold :: db where
  "db_oversold =
     db_open\<lparr>registrasi :=
               [alice_row 1 PENDING,
                \<lparr>r_id = 2, r_event_id = 1, r_user_id = 3, r_tiket_tipe_id = 1,
                 r_status_pembayaran = PENDING, r_qr_code_unik = ''EVT-1-USR-3-3001''\<rparr>],
             registrasi_seq := 3\<rparr>"

definition db_doubled :: db where
  "db_doubled =
     db_open\<lparr>registrasi :=
               [alice_row 1 PENDING,
                \<lparr>r_id = 2, r_event_id = 1, r_user_id = 2, r_tiket_tipe_id = 1,
                 r_status_pembayaran = PENDING, r_qr_code_unik = ''EVT-1-USR-2-3001''\<rparr>],
             registrasi_seq := 3\<rparr>"

text \<open>
  Two answers of the gateway about the order \<^verbatim>\<open>ORDER-1-3000\<close>: a settlement, and a
  refund (a status the handler does not name).
\<close>

definition settled :: status_response where
  "settled = \<lparr>sr_order_id = ''ORDER-1-3000'', sr_transaction_status = ''settlement'',
     sr_fraud_status = None\<rparr>"

definition refunded :: status_response where
  "refunded = \<lparr>sr_order_id = ''ORDER-1-3000'', sr_transaction_status = ''refund'',
     sr_fraud_status = None\<rparr>"

text \<open>
  A gateway that answers every payment request with the token \<^verbatim>\<open>snap-token\<close> and
  verifies two payloads, \<^verbatim>\<open>settled\<close> and \<^verbatim>\<open>refunded\<close>; any other payload fails
  verification.
\<close>

definition snap0 :: gateway where
  "snap0 =
     \<lparr>createTransaction = (\<lambda>p. Some ''snap-token''),
      notification = (\<lambda>payload.
        if payload = ''settled'' then Some settled
        else if payload = ''refunded'' then Some refunded
        else None)\<rparr>"

text \<open>The payment request the register handler sends when Alice takes a VIP ticket at 3000.\<close>

definition vip_parameter :: snap_parameter where
  "vip_parameter = \<lparr>sp_order_id = ''ORDER-1-3000'', sp_gross_amount = 50000,
     sp_email = ''alice@example.com'', sp_first_name = ''Alice'',
     sp_item_details = [\<lparr>it_id = 2, it_price = 50000, it_quantity = 1,
                          it_name = ''TechFest - VIP''\<rparr>]\<rparr>"

definition techfest_body :: create_event_body where
  "techfest_body = \<lparr>ce_nama_event = ''TechFest'', ce_deskripsi = ''A campus technology fair'',
     ce_tanggal_mulai_iso8601 = True, ce_lokasi = ''Aula''\<rparr>"

text \<open>
  The scenario of the specification: the organisation creates TechFest and a free ticket
  type with quota 1, Alice registers twice, then Bob tries.
\<close>

definition scenario :: "(nat \<times> request) list" where
  "scenario =
     [(1000, CreateEvent (Some (access_token acme)) techfest_body),
      (2000, CreateTicket (Some (access_token acme)) 1 ''Free Entry'' 0 1),
      (3000, Register (Some (access_token alice)) 1 1),
      (4000, Register (Some (access_token alice)) 1 1),
      (5000, Register (Some (access_token bob)) 1 1)]"

section \<open>Properties\<close>

subsection \<open>Unfolding for the concrete checks\<close>

lemmas campus_defs =
  cfg0_def acme_def alice_def bob_def access_token_def refresh_token_def techfest_def
  free_entry_def vip_def db_open_def alice_row_def db_alice_def settled_def refunded_def
  snap0_def vip_parameter_def techfest_body_def
  passed_checks_def db_oversold_def db_doubled_def
  scenario_def empty_db_def

lemmas handler_defs =
  register_event_def register_checks_def register_insert.simps
  payment_notification_with_def authenticateToken_def requireRole_def jwt_verify_def jwt_sign_def
  tiketQuery_def registrasiCheckQuery_def countQuery_def insertRegistrasiQuery_def
  userQuery_def qrCodeUnik_def order_id_def paymentUrl_def server_error_def
  verificationQuery_def updateQuery_def returning_def confirm_payment_def newStatus_def
  payment_notification_def refresh_def create_event_def create_event_errors_def
  create_ticket_def create_ticket_errors_def eventCheckQuery_def run_def trim_def
  is_space_def sanitizeInput_def js_index_def pg_int_of_text_def is_digit_def digit_val_def
  digit_char_def string_of_nat.simps nonCancelledCount_def within_quota_def tikets_wf_def
  one_per_user_event_def Let_def

subsection \<open>Decimal numerals and order identifiers\<close>

lemma below_ten: "d < 10 \<Longrightarrow> d \<in> {0, 1, 2, 3, 4, 5, 6, 7, 8, 9::nat}"
  by auto

lemma digit_val_digit_char: "d < 10 \<Longrightarrow> digit_val (digit_char d) = d"
  using below_ten [of d] by (auto simp: digit_val_def digit_char_def)

lemma is_digit_digit_char: "d < 10 \<Longrightarrow> is_digit (digit_char d)"
  using below_ten [of d] by (auto simp: is_digit_def digit_char_def)

lemma string_of_nat_nonempty: "string_of_nat n \<noteq> []"
  by (induction n rule: string_of_nat.induct) (subst string_of_nat.simps, simp)

lemma string_of_nat_digits: "list_all is_digit (string_of_nat n)"
proof (induction n rule: string_of_nat.induct)
  case (1 n)
  show ?case
  proof (cases "n < 10")
    case True
    then show ?thesis by (subst string_of_nat.simps) (simp add: is_digit_digit_char)
  next
    case False
    with 1 show ?thesis by (subst string_of_nat.simps) (simp add: is_digit_digit_char)
  qed
qed

lemma string_of_nat_value: "foldl (\<lambda>a c. 10 * a + digit_val c) 0 (string_of_nat n) = n"
proof (induction n rule: string_of_nat.induct)
  case (1 n)
  show ?case
  proof (cases "n < 10")
    case True
    then show ?thesis by (subst string_of_nat.simps) (simp add: digit_val_digit_char)
  next
    case False
    with 1 show ?thesis by (subst string_of_nat.simps) (simp add: digit_val_digit_char)
  qed
qed

lemma pg_int_of_text_string_of_nat: "pg_int_of_text (string_of_nat n) = Some n"
  by (simp add: pg_int_of_text_def string_of_nat_nonempty string_of_nat_digits
      string_of_nat_value)

lemma js_split_nonempty: "js_split c s \<noteq> []"
  by (induction s) (auto split: list.splits)

lemma js_split_prefix: "c \<notin> set a \<Longrightarrow> js_split c (a @ c # b) = a # js_split c b"
  by (induction a) (auto split: list.splits simp: js_split_nonempty)

lemma is_digit_not_dash: "is_digit x \<Longrightarrow> x \<noteq> CHR ''-''"
  by (auto simp: is_digit_def)

lemma string_of_nat_no_dash: "CHR ''-'' \<notin> set (string_of_nat n)"
  using string_of_nat_digits [of n] is_digit_not_dash by (auto simp: list_all_iff)

lemma order_id_piece:
  "js_index (js_split CHR ''-'' (order_id rid now)) (Suc 0) = Some (string_of_nat rid)"
proof -
  have a: "CHR ''-'' \<notin> set ''ORDER''" by simp
  have "order_id rid now
      = ''ORDER'' @ CHR ''-'' # (string_of_nat rid @ CHR ''-'' # string_of_nat now)"
    by (simp add: order_id_def)
  then have "js_split CHR ''-'' (order_id rid now)
      = ''ORDER'' # string_of_nat rid # js_split CHR ''-'' (string_of_nat now)"
    using js_split_prefix [OF a] js_split_prefix [OF string_of_nat_no_dash] by simp
  then show ?thesis by (simp add: js_index_def)
qed

subsection \<open>What each handler does to the ledger\<close>



lemma countQuery_updateQuery [simp]: "countQuery (updateQuery s st rid) tid = countQuery s tid"
proof -
  have "length (filter (\<lambda>r. r_tiket_tipe_id r = tid)
          (map (\<lambda>r. if r_id r = rid then r\<lparr>r_status_pembayaran := st\<rparr> else r) xs))
        = length (filter (\<lambda>r. r_tiket_tipe_id r = tid) xs)" for xs :: "registrasi_row list"
    by (induction xs) auto
  then show ?thesis by (simp add: countQuery_def updateQuery_def del: length_filter_map)
qed












lemma ledger_inv_empty_db: "ledger_inv empty_db"
  by (simp add: ledger_inv_def within_quota_def tikets_wf_def empty_db_def)





subsection \<open>Notifications for order identifiers of the register handler\<close>

lemma notification_of_order_id:
  assumes "notification snap payload = Some sr" and "sr_order_id sr = order_id rid ts"
  shows "payment_notification snap s payload
     = ((200, Message ''Notification received''),
        updateQuery s (newStatus (sr_transaction_status sr) (sr_fraud_status sr)) rid)"
  using assms
  by (simp add: payment_notification_def Let_def order_id_piece pg_int_of_text_string_of_nat)

lemma register_event_calls:
  "parameter \<in> set (snd (snd (register_event cfg snap s now token eventId tiket_tipe_id)))
   \<Longrightarrow> sp_order_id parameter = order_id (registrasi_seq s) now
       \<and> registrasi (fst (snd (register_event cfg snap s now token eventId tiket_tipe_id))) \<noteq> []
       \<and> r_id (last (registrasi (fst (snd (register_event cfg snap s now token eventId tiket_tipe_id)))))
           = registrasi_seq s"
  by (auto simp: register_event_def insertRegistrasiQuery_def authenticateToken_def
      server_error_def Let_def
      split: sum.splits option.splits jwt_error.splits list.splits prod.splits if_splits)

subsection \<open>Confirming a payment\<close>

lemma verification_row_updated:
  "concat (map (\<lambda>e. if r_event_id x = e_id e \<and> P
                     then [(e_created_by_user_id e, st)] else []) es)
   = map (\<lambda>(owner, _). (owner, st))
       (concat (map (\<lambda>e. if r_event_id x = e_id e \<and> P
                           then [(e_created_by_user_id e, st')] else []) es))"
  by (induction es) auto

lemma verificationQuery_updateQuery:
  "verificationQuery (updateQuery s st rid) rid
     = map (\<lambda>(owner, _). (owner, st)) (verificationQuery s rid)"
proof -
  have "concat (map (\<lambda>r. concat (map (\<lambda>e. if r_event_id r = e_id e \<and> r_id r = rid
                                           then [(e_created_by_user_id e, r_status_pembayaran r)]
                                           else []) es))
          (map (\<lambda>r. if r_id r = rid then r\<lparr>r_status_pembayaran := st\<rparr> else r) xs))
        = map (\<lambda>(owner, _). (owner, st))
            (concat (map (\<lambda>r. concat (map (\<lambda>e. if r_event_id r = e_id e \<and> r_id r = rid
                                           then [(e_created_by_user_id e, r_status_pembayaran r)]
                                           else []) es)) xs))"
    for xs :: "registrasi_row list" and es :: "event_row list"
  proof (induction xs)
    case Nil
    show ?case by simp
  next
    case (Cons x xs)
    show ?case
    proof (cases "r_id x = rid")
      case True
      with Cons verification_row_updated [of x True st es "r_status_pembayaran x"]
      show ?thesis by (simp del: map_map cong del: if_weak_cong)
    next
      case False
      have emp: "concat (map (\<lambda>e. []) es) = ([] :: (nat \<times> status_pembayaran) list)"
        by (induction es) auto
      from False Cons show ?thesis by (simp add: emp del: map_map)
    qed
  qed
  then show ?thesis by (simp add: verificationQuery_def updateQuery_def del: map_map)
qed

lemma updateQuery_idem: "updateQuery (updateQuery s st rid) st rid = updateQuery s st rid"
proof -
  have "map (\<lambda>r. if r_id r = rid then r\<lparr>r_status_pembayaran := st\<rparr> else r)
          (map (\<lambda>r. if r_id r = rid then r\<lparr>r_status_pembayaran := st\<rparr> else r) xs)
        = map (\<lambda>r. if r_id r = rid then r\<lparr>r_status_pembayaran := st\<rparr> else r) xs"
    for xs :: "registrasi_row list"
    by (induction xs) auto
  then show ?thesis by (simp add: updateQuery_def del: map_map)
qed

lemma verificationQuery_row:
  "verificationQuery s rid \<noteq> [] \<Longrightarrow> \<exists>r \<in> set (registrasi s). r_id r = rid"
  by (auto simp: verificationQuery_def split: if_splits)

lemma returning_updateQuery:
  assumes "\<exists>r \<in> set (registrasi s). r_id r = rid"
  shows "js_index (returning (updateQuery s st rid) rid) 0 = Some (rid, st)"
proof -
  let ?rows = "returning (updateQuery s st rid) rid"
  have "set (map (\<lambda>r. (r_id r, r_status_pembayaran r))
          (filter (\<lambda>r. r_id r = rid)
             (map (\<lambda>r. if r_id r = rid then r\<lparr>r_status_pembayaran := st\<rparr> else r) xs)))
        \<subseteq> {(rid, st)}" for xs :: "registrasi_row list"
    by (induction xs) simp_all
  then have all: "set ?rows \<subseteq> {(rid, st)}"
    by (simp add: returning_def updateQuery_def del: map_map filter_map set_map set_filter)
  have "\<exists>r \<in> set xs. r_id r = rid \<Longrightarrow>
        map (\<lambda>r. (r_id r, r_status_pembayaran r))
          (filter (\<lambda>r. r_id r = rid)
             (map (\<lambda>r. if r_id r = rid then r\<lparr>r_status_pembayaran := st\<rparr> else r) xs))
        \<noteq> []" for xs :: "registrasi_row list"
    by (induction xs) auto
  from this [OF assms] have ne: "?rows \<noteq> []"
    by (simp add: returning_def updateQuery_def del: map_map filter_map)
  then have "0 < length ?rows" and "?rows ! 0 \<in> set ?rows" by simp_all
  with all have "?rows ! 0 = (rid, st)" by blast
  with ne show ?thesis by (simp add: js_index_def)
qed

lemma confirm_payment_owner:
  assumes "authenticateToken cfg now token = Inr user"
    and "c_role user = Some ORGANISASI"
    and "verificationQuery s rid = (c_userId user, st) # rest"
  shows "confirm_payment cfg s now token rid
     = ((200, Confirmed (Some (rid, LUNAS))), updateQuery s LUNAS rid)"
proof -
  from assms(3) have "\<exists>r \<in> set (registrasi s). r_id r = rid"
    using verificationQuery_row [of s rid] by simp
  then have "js_index (returning (updateQuery s LUNAS rid) rid) 0 = Some (rid, LUNAS)"
    by (rule returning_updateQuery)
  with assms show ?thesis
    by (simp add: confirm_payment_def requireRole_def Let_def)
qed

subsection \<open>The two parts of the register handler\<close>

lemma register_event_phases:
  "register_event cfg snap s now token eventId tiket_tipe_id =
     (case register_checks cfg s now token eventId tiket_tipe_id of
        Inl resp \<Rightarrow> (resp, s, [])
      | Inr passed \<Rightarrow> register_insert snap s now eventId tiket_tipe_id passed)"
  by (simp add: register_event_def register_checks_def register_insert.simps Let_def
      split: sum.splits list.splits prod.splits)





subsection \<open>The notification handler for the plain numerals\<close>

lemma payment_notification_instance:
  "payment_notification snap s payload = payment_notification_with pg_int_of_text snap s payload"
  by (simp add: payment_notification_def payment_notification_with_def)

section \<open>The claims\<close>

subsection \<open>Sold-out ticket types\<close>

text \<open>
  Claim C1, as the code has it. When the requested ticket type belongs to the event and
  the number of Registration rows for it has reached its quota, the register handler
  leaves the ledger unchanged and sends nothing to the gateway; the answer is 401 or 403
  from the token middleware, or HTTP 400, and for an authenticated user without a
  registration for the event it is HTTP 400 with the sold-out message. The handler has
  no 409 answer.
\<close>

theorem register_sold_out:
  assumes "tiketQuery s tiket_tipe_id eventId = (tiketData, ev) # rest"
    and "tt_kuota tiketData \<le> int (countQuery s tiket_tipe_id)"
  shows "snd (register_event cfg snap s now token eventId tiket_tipe_id) = (s, [])
    \<and> fst (fst (register_event cfg snap s now token eventId tiket_tipe_id)) \<in> {400, 401, 403}
    \<and> (\<forall>user. authenticateToken cfg now token = Inr user
          \<longrightarrow> registrasiCheckQuery s (c_userId user) eventId = []
          \<longrightarrow> fst (register_event cfg snap s now token eventId tiket_tipe_id)
               = (400, Message ''Maaf, tiket untuk tipe ini sudah habis''))"
  using assms
  by (auto simp: register_event_def authenticateToken_def Let_def
      split: sum.splits option.splits jwt_error.splits)

text \<open>Bob asks for the free ticket after Alice took the only one.\<close>

theorem register_sold_out_witness:
  "tiketQuery (db_alice 1 PENDING) 1 1 = [(free_entry, techfest)]
   \<and> tt_kuota free_entry \<le> int (countQuery (db_alice 1 PENDING) 1)
   \<and> register_event cfg0 snap0 (db_alice 1 PENDING) 5000 (Some (access_token bob)) 1 1
       = ((400, Message ''Maaf, tiket untuk tipe ini sudah habis''), db_alice 1 PENDING, [])"
proof -
  have q: "tiketQuery (db_alice 1 PENDING) 1 1 = (free_entry, techfest) # []"
    by (simp add: campus_defs handler_defs)
  have c: "tt_kuota free_entry \<le> int (countQuery (db_alice 1 PENDING) 1)"
    by (simp add: campus_defs handler_defs)
  have a: "authenticateToken cfg0 5000 (Some (access_token bob))
             = Inr (jwt_claims (access_token bob))"
    by (simp add: campus_defs handler_defs)
  have d: "registrasiCheckQuery (db_alice 1 PENDING)
             (c_userId (jwt_claims (access_token bob))) 1 = []"
    by (simp add: campus_defs handler_defs)
  from register_sold_out [OF q c, of cfg0 snap0 5000 "Some (access_token bob)"] a d q c
  show ?thesis by (simp add: prod_eq_iff)
qed

text \<open>The same request refutes the status named in the claim: the answer is not 409.\<close>

theorem register_sold_out_status_counterexample:
  "tiketQuery (db_alice 1 PENDING) 1 1 = [(free_entry, techfest)]
   \<and> tt_kuota free_entry \<le> int (countQuery (db_alice 1 PENDING) 1)
   \<and> fst (fst (register_event cfg0 snap0 (db_alice 1 PENDING) 5000 (Some (access_token bob)) 1 1))
       \<noteq> 409"
  by (simp add: campus_defs handler_defs)

subsection \<open>What the capacity check counts\<close>




subsection \<open>Gateway statuses and ledger statuses\<close>

text \<open>
  The claim C3 says that a gateway status outside the list changes nothing. The handler
  starts from \<^verbatim>\<open>PENDING\<close> and always writes: a \<^verbatim>\<open>refund\<close> notification for Alice's paid
  registration sets it back to \<^verbatim>\<open>PENDING\<close>.
\<close>

theorem paid_row_reset_counterexample:
  "notification snap0 ''refunded'' = Some refunded
   \<and> sr_transaction_status refunded = ''refund''
   \<and> map r_status_pembayaran (registrasi (db_alice 2 LUNAS)) = [LUNAS]
   \<and> map r_status_pembayaran
        (registrasi (snd (payment_notification snap0 (db_alice 2 LUNAS) ''refunded'')))
       = [PENDING]"
  by (simp add: campus_defs handler_defs)

text \<open>
  Claim C3, as the code has it. \<^verbatim>\<open>capture\<close> with fraud status \<^verbatim>\<open>accept\<close> and
  \<^verbatim>\<open>settlement\<close> give \<^verbatim>\<open>LUNAS\<close>; \<^verbatim>\<open>cancel\<close>, \<^verbatim>\<open>deny\<close> and \<^verbatim>\<open>expire\<close> give \<^verbatim>\<open>BATAL\<close>;
  \<^verbatim>\<open>pending\<close>, \<^verbatim>\<open>capture\<close> without \<^verbatim>\<open>accept\<close> and every other status give \<^verbatim>\<open>PENDING\<close>.
  For a verified notification whose order identifier is one the register handler makes,
  the handler answers 200 and writes the mapped status to every row with that
  identifier, whatever status the row had; no other column and no other row changes.
\<close>

theorem notification_status_mapping:
  "newStatus ''capture'' (Some ''accept'') = LUNAS
   \<and> newStatus ''settlement'' fraud = LUNAS
   \<and> newStatus ''cancel'' fraud = BATAL
   \<and> newStatus ''deny'' fraud = BATAL
   \<and> newStatus ''expire'' fraud = BATAL
   \<and> newStatus ''pending'' fraud = PENDING
   \<and> (\<not> (t = ''capture'' \<and> fraud = Some ''accept'')
        \<and> t \<notin> {''settlement'', ''cancel'', ''deny'', ''expire''}
       \<longrightarrow> newStatus t fraud = PENDING)
   \<and> (notification snap payload = Some sr \<and> sr_order_id sr = order_id rid ts
       \<longrightarrow> payment_notification snap s payload
            = ((200, Message ''Notification received''),
               updateQuery s (newStatus (sr_transaction_status sr) (sr_fraud_status sr)) rid)
          \<and> registrasi (snd (payment_notification snap s payload))
            = map (\<lambda>r. if r_id r = rid
                        then r\<lparr>r_status_pembayaran :=
                               newStatus (sr_transaction_status sr) (sr_fraud_status sr)\<rparr>
                        else r) (registrasi s))"
proof -
  have m: "newStatus ''capture'' (Some ''accept'') = LUNAS
   \<and> newStatus ''settlement'' fraud = LUNAS
   \<and> newStatus ''cancel'' fraud = BATAL
   \<and> newStatus ''deny'' fraud = BATAL
   \<and> newStatus ''expire'' fraud = BATAL
   \<and> newStatus ''pending'' fraud = PENDING"
    by (simp add: newStatus_def)
  have d: "\<not> (t = ''capture'' \<and> fraud = Some ''accept'')
        \<and> t \<notin> {''settlement'', ''cancel'', ''deny'', ''expire''}
       \<longrightarrow> newStatus t fraud = PENDING"
    by (simp add: newStatus_def)
  have h: "notification snap payload = Some sr \<and> sr_order_id sr = order_id rid ts
       \<longrightarrow> payment_notification snap s payload
            = ((200, Message ''Notification received''),
               updateQuery s (newStatus (sr_transaction_status sr) (sr_fraud_status sr)) rid)
          \<and> registrasi (snd (payment_notification snap s payload))
            = map (\<lambda>r. if r_id r = rid
                        then r\<lparr>r_status_pembayaran :=
                               newStatus (sr_transaction_status sr) (sr_fraud_status sr)\<rparr>
                        else r) (registrasi s)"
    by (simp add: notification_of_order_id updateQuery_def)
  from m d h show ?thesis by blast
qed

text \<open>A settlement for Alice's pending VIP registration, and the status \<^verbatim>\<open>refund\<close>.\<close>

theorem notification_status_mapping_witness:
  "\<not> (''refund'' = ''capture'' \<and> (None :: string option) = Some ''accept'')
   \<and> ''refund'' \<notin> {''settlement'', ''cancel'', ''deny'', ''expire''}
   \<and> newStatus ''refund'' None = PENDING
   \<and> notification snap0 ''settled'' = Some settled
   \<and> sr_order_id settled = order_id 1 3000
   \<and> payment_notification snap0 (db_alice 2 PENDING) ''settled''
       = ((200, Message ''Notification received''), db_alice 2 LUNAS)"
proof -
  have r: "\<not> (''refund'' = ''capture'' \<and> (None :: string option) = Some ''accept'')
     \<and> ''refund'' \<notin> {''settlement'', ''cancel'', ''deny'', ''expire''}" by simp
  have n: "notification snap0 ''settled'' = Some settled \<and> sr_order_id settled = order_id 1 3000"
    by (simp add: campus_defs handler_defs)
  have u: "updateQuery (db_alice 2 PENDING)
             (newStatus (sr_transaction_status settled) (sr_fraud_status settled)) 1
           = db_alice 2 LUNAS"
    by (simp add: campus_defs handler_defs)
  note T = notification_status_mapping [of None "''refund''" snap0 "''settled''" settled 1 3000
      "db_alice 2 PENDING"]
  from T r have a: "newStatus ''refund'' None = PENDING" by simp
  from T n have "payment_notification snap0 (db_alice 2 PENDING) ''settled''
       = ((200, Message ''Notification received''),
          updateQuery (db_alice 2 PENDING)
             (newStatus (sr_transaction_status settled) (sr_fraud_status settled)) 1)" by simp
  with u have b: "payment_notification snap0 (db_alice 2 PENDING) ''settled''
       = ((200, Message ''Notification received''), db_alice 2 LUNAS)" by simp
  from r a n b show ?thesis by simp
qed

subsection \<open>The acknowledgment sent to the gateway\<close>

text \<open>
  The claim C5 says that the acknowledgment is always 200. A payload the gateway does not
  verify is answered with 500 from the \<^verbatim>\<open>catch\<close> branch.
\<close>

theorem notification_error_counterexample:
  "notification snap0 ''garbage'' = None
   \<and> fst (fst (payment_notification snap0 db_open ''garbage'')) = 500"
  by (simp add: campus_defs handler_defs)

text \<open>
  Claim C5, as the code has it, for every integer input \<open>pg\<close> of the database. The
  answer is 200 exactly when the gateway verifies the payload and the update runs: the
  order identifier has no second piece (the parameter is \<^verbatim>\<open>NULL\<close>), or the database
  reads that piece as an integer; this is so for every order identifier of the register
  handler, whose piece is the numeral of a row identifier, and then the rows with that
  identifier are updated. In every other case (verification fails, the database rejects
  the piece) the answer is 500 with the message \<^verbatim>\<open>Error processing notification\<close>, and
  the ledger is unchanged. A piece holds no \<^verbatim>\<open>-\<close>, so an integer read from it is not
  negative.
\<close>

theorem notification_ack:
  "(fst (fst (payment_notification_with pg snap s payload)) = 200
      \<longleftrightarrow> (\<exists>sr. notification snap payload = Some sr
            \<and> (case js_index (js_split CHR ''-'' (sr_order_id sr)) 1 of
                 None \<Rightarrow> True
               | Some txt \<Rightarrow> pg txt \<noteq> None)))
   \<and> (fst (fst (payment_notification_with pg snap s payload)) \<noteq> 200
      \<longrightarrow> payment_notification_with pg snap s payload
           = ((500, Message ''Error processing notification''), s))
   \<and> (notification snap payload = None
      \<longrightarrow> payment_notification_with pg snap s payload
           = ((500, Message ''Error processing notification''), s))
   \<and> (notification snap payload = Some sr \<and> sr_order_id sr = order_id rid ts
        \<and> pg (string_of_nat rid) = Some rid
      \<longrightarrow> payment_notification_with pg snap s payload
           = ((200, Message ''Notification received''),
              updateQuery s (newStatus (sr_transaction_status sr) (sr_fraud_status sr)) rid))
   \<and> payment_notification snap s payload
       = payment_notification_with pg_int_of_text snap s payload"
  by (auto simp: payment_notification_with_def payment_notification_def Let_def order_id_piece
      split: option.splits)

text \<open>An unverifiable payload and a settlement, with the plain numerals as integer input.\<close>

theorem notification_ack_witness:
  "notification snap0 ''garbage'' = None
   \<and> payment_notification_with pg_int_of_text snap0 db_open ''garbage''
       = ((500, Message ''Error processing notification''), db_open)
   \<and> fst (fst (payment_notification_with pg_int_of_text snap0 db_open ''garbage'')) \<noteq> 200
   \<and> notification snap0 ''settled'' = Some settled
   \<and> sr_order_id settled = order_id 1 3000
   \<and> pg_int_of_text (string_of_nat 1) = Some 1
   \<and> payment_notification_with pg_int_of_text snap0 (db_alice 2 PENDING) ''settled''
       = ((200, Message ''Notification received''), db_alice 2 LUNAS)
   \<and> payment_notification snap0 (db_alice 2 PENDING) ''settled''
       = ((200, Message ''Notification received''), db_alice 2 LUNAS)"
proof -
  have g: "notification snap0 ''garbage'' = None" by (simp add: campus_defs)
  have n: "notification snap0 ''settled'' = Some settled \<and> sr_order_id settled = order_id 1 3000
      \<and> pg_int_of_text (string_of_nat 1) = Some 1"
    by (simp add: campus_defs handler_defs)
  have u: "updateQuery (db_alice 2 PENDING)
             (newStatus (sr_transaction_status settled) (sr_fraud_status settled)) 1
           = db_alice 2 LUNAS"
    by (simp add: campus_defs handler_defs)
  have a: "payment_notification_with pg_int_of_text snap0 db_open ''garbage''
       = ((500, Message ''Error processing notification''), db_open)"
    by (rule notification_ack [of pg_int_of_text snap0 db_open "''garbage''" settled 1 3000,
          THEN conjunct2, THEN conjunct2, THEN conjunct1, THEN mp, OF g])
  then have a': "fst (fst (payment_notification_with pg_int_of_text snap0 db_open ''garbage''))
       \<noteq> 200" by simp
  note T = notification_ack [of pg_int_of_text snap0 "db_alice 2 PENDING" "''settled''" settled
      1 3000]
  from T [THEN conjunct2, THEN conjunct2, THEN conjunct2, THEN conjunct1, THEN mp, OF n] u
  have b: "payment_notification_with pg_int_of_text snap0 (db_alice 2 PENDING) ''settled''
       = ((200, Message ''Notification received''), db_alice 2 LUNAS)" by simp
  with T [THEN conjunct2, THEN conjunct2, THEN conjunct2, THEN conjunct2]
  have c: "payment_notification snap0 (db_alice 2 PENDING) ''settled''
       = ((200, Message ''Notification received''), db_alice 2 LUNAS)" by simp
  from g a a' n b c show ?thesis by simp
qed

subsection \<open>One registration per user and event\<close>




subsection \<open>Free and paid tickets\<close>

text \<open>
  Claim C6. For every registration answered with 201: when the price of the ticket type
  is 0, the response has \<^verbatim>\<open>isFree = true\<close>, its payment token is null and the handler sent
  nothing to the gateway; when the price is above 0, the response has
  \<^verbatim>\<open>isFree = false\<close> and carries the token with which the gateway answered the one
  payment request of the handler, for the amount of the price.
\<close>

theorem register_payment_branch:
  assumes "fst (fst (register_event cfg snap s now token eventId tiket_tipe_id)) = 201"
    and "tiketQuery s tiket_tipe_id eventId = (tiketData, ev) # rest"
  shows "\<exists>b. snd (fst (register_event cfg snap s now token eventId tiket_tipe_id)) = Registered b
    \<and> (tt_harga tiketData = 0 \<longrightarrow>
          rb_isFree b \<and> rb_paymentToken b = None
          \<and> snd (snd (register_event cfg snap s now token eventId tiket_tipe_id)) = [])
    \<and> (tt_harga tiketData > 0 \<longrightarrow>
          \<not> rb_isFree b
          \<and> (\<exists>parameter paymentToken.
                snd (snd (register_event cfg snap s now token eventId tiket_tipe_id)) = [parameter]
                \<and> sp_gross_amount parameter = tt_harga tiketData
                \<and> createTransaction snap parameter = Some paymentToken
                \<and> rb_paymentToken b = Some paymentToken))"
  using assms
  by (auto simp: register_event_def authenticateToken_def server_error_def Let_def
      split: sum.splits option.splits jwt_error.splits list.splits prod.splits if_splits)

text \<open>Alice takes the free ticket; Alice takes the VIP ticket.\<close>

theorem register_payment_branch_witness:
  "fst (fst (register_event cfg0 snap0 db_open 3000 (Some (access_token alice)) 1 1)) = 201
   \<and> tiketQuery db_open 1 1 = [(free_entry, techfest)] \<and> tt_harga free_entry = 0
   \<and> (\<exists>b. snd (fst (register_event cfg0 snap0 db_open 3000 (Some (access_token alice)) 1 1))
             = Registered b \<and> rb_isFree b \<and> rb_paymentToken b = None)
   \<and> snd (snd (register_event cfg0 snap0 db_open 3000 (Some (access_token alice)) 1 1)) = []
   \<and> fst (fst (register_event cfg0 snap0 db_open 3000 (Some (access_token alice)) 1 2)) = 201
   \<and> tiketQuery db_open 2 1 = [(vip, techfest)] \<and> tt_harga vip > 0
   \<and> (\<exists>b. snd (fst (register_event cfg0 snap0 db_open 3000 (Some (access_token alice)) 1 2))
             = Registered b \<and> \<not> rb_isFree b \<and> rb_paymentToken b = Some ''snap-token'')"
proof -
  have f1: "fst (fst (register_event cfg0 snap0 db_open 3000 (Some (access_token alice)) 1 1)) = 201"
    by (simp add: campus_defs handler_defs)
  have f2: "tiketQuery db_open 1 1 = (free_entry, techfest) # []" by (simp add: campus_defs handler_defs)
  have f3: "tt_harga free_entry = 0" by (simp add: campus_defs)
  have p1: "fst (fst (register_event cfg0 snap0 db_open 3000 (Some (access_token alice)) 1 2)) = 201"
    by (simp add: campus_defs handler_defs)
  have p2: "tiketQuery db_open 2 1 = (vip, techfest) # []" by (simp add: campus_defs handler_defs)
  have p3: "tt_harga vip > 0" by (simp add: campus_defs)
  have p4: "createTransaction snap0 p = Some ''snap-token''" for p by (simp add: campus_defs)
  from register_payment_branch [OF f1 f2] f3
  have F: "(\<exists>b. snd (fst (register_event cfg0 snap0 db_open 3000 (Some (access_token alice)) 1 1))
             = Registered b \<and> rb_isFree b \<and> rb_paymentToken b = None)
     \<and> snd (snd (register_event cfg0 snap0 db_open 3000 (Some (access_token alice)) 1 1)) = []"
    by auto
  from register_payment_branch [OF p1 p2] p3 p4
  have P: "\<exists>b. snd (fst (register_event cfg0 snap0 db_open 3000 (Some (access_token alice)) 1 2))
             = Registered b \<and> \<not> rb_isFree b \<and> rb_paymentToken b = Some ''snap-token''"
    by auto
  from f1 f2 f3 p1 p2 p3 F P show ?thesis by simp
qed

subsection \<open>Order identifiers\<close>

text \<open>
  Claim C7. The second piece of the order identifier made for a Registration id reads
  back as that id. Every payment request of the register handler carries the order
  identifier of the row the handler has just inserted, and a verified notification with
  that order identifier makes the notification handler update exactly the rows with that
  id.
\<close>

theorem order_id_round_trip:
  "(case js_index (js_split CHR ''-'' (order_id registrasiId now)) 1 of
      None \<Rightarrow> None
    | Some txt \<Rightarrow> pg_int_of_text txt) = Some registrasiId
   \<and> (parameter \<in> set (snd (snd (register_event cfg snap s now token eventId tiket_tipe_id)))
       \<longrightarrow> sp_order_id parameter = order_id (registrasi_seq s) now
          \<and> r_id (last (registrasi (fst (snd (register_event cfg snap s now token eventId
                                                  tiket_tipe_id)))))
              = registrasi_seq s
          \<and> (notification snap' payload = Some sr \<and> sr_order_id sr = sp_order_id parameter
              \<longrightarrow> payment_notification snap' s' payload
                   = ((200, Message ''Notification received''),
                      updateQuery s' (newStatus (sr_transaction_status sr) (sr_fraud_status sr))
                        (registrasi_seq s))))"
proof (intro conjI impI)
  show "(case js_index (js_split CHR ''-'' (order_id registrasiId now)) 1 of
      None \<Rightarrow> None
    | Some txt \<Rightarrow> pg_int_of_text txt) = Some registrasiId"
    by (simp add: order_id_piece pg_int_of_text_string_of_nat)
next
  assume p: "parameter \<in> set (snd (snd (register_event cfg snap s now token eventId tiket_tipe_id)))"
  from register_event_calls [OF p]
  show "sp_order_id parameter = order_id (registrasi_seq s) now" by simp
  from register_event_calls [OF p]
  show "r_id (last (registrasi (fst (snd (register_event cfg snap s now token eventId
                                                  tiket_tipe_id)))))
              = registrasi_seq s" by simp
  assume n: "notification snap' payload = Some sr \<and> sr_order_id sr = sp_order_id parameter"
  with register_event_calls [OF p]
  have oid: "sr_order_id sr = order_id (registrasi_seq s) now" by simp
  from n have nn: "notification snap' payload = Some sr" by simp
  show "payment_notification snap' s' payload
                   = ((200, Message ''Notification received''),
                      updateQuery s' (newStatus (sr_transaction_status sr) (sr_fraud_status sr))
                        (registrasi_seq s))"
    by (rule notification_of_order_id [OF nn oid])
qed

text \<open>Alice takes the VIP ticket and the gateway reports the settlement.\<close>

theorem order_id_round_trip_witness:
  "snd (register_event cfg0 snap0 db_open 3000 (Some (access_token alice)) 1 2)
     = (db_alice 2 PENDING, [vip_parameter])
   \<and> registrasi_seq db_open = 1
   \<and> notification snap0 ''settled'' = Some settled
   \<and> sr_order_id settled = sp_order_id vip_parameter
   \<and> payment_notification snap0 (db_alice 2 PENDING) ''settled''
       = ((200, Message ''Notification received''), db_alice 2 LUNAS)"
proof -
  have r: "snd (register_event cfg0 snap0 db_open 3000 (Some (access_token alice)) 1 2)
     = (db_alice 2 PENDING, [vip_parameter])"
    by (simp add: campus_defs handler_defs)
  then have p: "vip_parameter
      \<in> set (snd (snd (register_event cfg0 snap0 db_open 3000 (Some (access_token alice)) 1 2)))"
    by simp
  have q: "registrasi_seq db_open = 1" by (simp add: campus_defs)
  have n: "notification snap0 ''settled'' = Some settled
      \<and> sr_order_id settled = sp_order_id vip_parameter"
    by (simp add: campus_defs)
  have u: "updateQuery (db_alice 2 PENDING)
             (newStatus (sr_transaction_status settled) (sr_fraud_status settled)) 1
           = db_alice 2 LUNAS"
    by (simp add: campus_defs handler_defs)
  from order_id_round_trip [of 1 3000 vip_parameter cfg0 snap0 db_open "Some (access_token alice)"
      1 2 snap0 "''settled''" settled "db_alice 2 PENDING", THEN conjunct2, THEN mp, OF p,
      THEN conjunct2, THEN conjunct2, THEN mp, OF n] q u
  have "payment_notification snap0 (db_alice 2 PENDING) ''settled''
       = ((200, Message ''Notification received''), db_alice 2 LUNAS)" by simp
  with r q n show ?thesis by simp
qed

subsection \<open>Confirming twice\<close>

text \<open>
  Claim C8. When an organisation confirms a registration of one of its events and then
  confirms it again, both calls answer 200 with the registration as \<^verbatim>\<open>LUNAS\<close>, and the
  second call leaves the database as the first one left it: the rows with that id have
  status \<^verbatim>\<open>LUNAS\<close>, their other columns, the other rows and the other tables are as
  before the first call.
\<close>

theorem confirm_payment_idempotent:
  assumes "authenticateToken cfg now1 token = Inr user"
    and "authenticateToken cfg now2 token = Inr user"
    and "c_role user = Some ORGANISASI"
    and "verificationQuery s registrasiId = (c_userId user, st) # rest"
  shows "confirm_payment cfg s now1 token registrasiId
           = ((200, Confirmed (Some (registrasiId, LUNAS))), updateQuery s LUNAS registrasiId)
    \<and> confirm_payment cfg (updateQuery s LUNAS registrasiId) now2 token registrasiId
           = ((200, Confirmed (Some (registrasiId, LUNAS))), updateQuery s LUNAS registrasiId)
    \<and> registrasi (updateQuery s LUNAS registrasiId)
         = map (\<lambda>r. if r_id r = registrasiId then r\<lparr>r_status_pembayaran := LUNAS\<rparr> else r)
             (registrasi s)
    \<and> users (updateQuery s LUNAS registrasiId) = users s
    \<and> events (updateQuery s LUNAS registrasiId) = events s
    \<and> tikets (updateQuery s LUNAS registrasiId) = tikets s
    \<and> registrasi_seq (updateQuery s LUNAS registrasiId) = registrasi_seq s"
proof -
  have one: "confirm_payment cfg s now1 token registrasiId
           = ((200, Confirmed (Some (registrasiId, LUNAS))), updateQuery s LUNAS registrasiId)"
    using assms(1,3,4) by (rule confirm_payment_owner)
  have "verificationQuery (updateQuery s LUNAS registrasiId) registrasiId
          = (c_userId user, LUNAS) # map (\<lambda>(owner, _). (owner, LUNAS)) rest"
    using assms(4) by (simp add: verificationQuery_updateQuery)
  with assms(2,3)
  have "confirm_payment cfg (updateQuery s LUNAS registrasiId) now2 token registrasiId
           = ((200, Confirmed (Some (registrasiId, LUNAS))),
              updateQuery (updateQuery s LUNAS registrasiId) LUNAS registrasiId)"
    by (rule confirm_payment_owner)
  then have two: "confirm_payment cfg (updateQuery s LUNAS registrasiId) now2 token registrasiId
           = ((200, Confirmed (Some (registrasiId, LUNAS))), updateQuery s LUNAS registrasiId)"
    by (simp add: updateQuery_idem)
  from one two show ?thesis by (simp add: updateQuery_def)
qed

text \<open>The organiser of TechFest confirms Alice's registration at 6000 and again at 7000.\<close>

theorem confirm_payment_idempotent_witness:
  "authenticateToken cfg0 6000 (Some (access_token acme)) = Inr (jwt_claims (access_token acme))
   \<and> authenticateToken cfg0 7000 (Some (access_token acme)) = Inr (jwt_claims (access_token acme))
   \<and> c_role (jwt_claims (access_token acme)) = Some ORGANISASI
   \<and> verificationQuery (db_alice 1 PENDING) 1 = [(c_userId (jwt_claims (access_token acme)), PENDING)]
   \<and> updateQuery (db_alice 1 PENDING) LUNAS 1 = db_alice 1 LUNAS
   \<and> confirm_payment cfg0 (db_alice 1 PENDING) 6000 (Some (access_token acme)) 1
       = ((200, Confirmed (Some (1, LUNAS))), db_alice 1 LUNAS)
   \<and> confirm_payment cfg0 (db_alice 1 LUNAS) 7000 (Some (access_token acme)) 1
       = ((200, Confirmed (Some (1, LUNAS))), db_alice 1 LUNAS)"
proof -
  have a1: "authenticateToken cfg0 6000 (Some (access_token acme)) = Inr (jwt_claims (access_token acme))"
    by (simp add: campus_defs handler_defs)
  have a2: "authenticateToken cfg0 7000 (Some (access_token acme)) = Inr (jwt_claims (access_token acme))"
    by (simp add: campus_defs handler_defs)
  have ro: "c_role (jwt_claims (access_token acme)) = Some ORGANISASI"
    by (simp add: campus_defs handler_defs)
  have v: "verificationQuery (db_alice 1 PENDING) 1
      = (c_userId (jwt_claims (access_token acme)), PENDING) # []"
    by (simp add: campus_defs handler_defs)
  have u: "updateQuery (db_alice 1 PENDING) LUNAS 1 = db_alice 1 LUNAS"
    by (simp add: campus_defs handler_defs)
  from confirm_payment_idempotent [OF a1 a2 ro v] u a1 a2 ro v show ?thesis by simp
qed

subsection \<open>Refreshing a token\<close>

text \<open>
  The claim C9 puts every failure of refresh in the class 401/403. A valid refresh token
  of a user who is not in the table is answered with 404.
\<close>

theorem refresh_missing_user_counterexample:
  "jwt_verify (refresh_token 9) (JWT_REFRESH_SECRET cfg0) 6000
     = Inr (jwt_claims (refresh_token 9))
   \<and> userQuery db_open (c_userId (jwt_claims (refresh_token 9))) = []
   \<and> fst (refresh cfg0 db_open 6000 (Some (refresh_token 9))) = 404"
  by (simp add: campus_defs handler_defs)

text \<open>
  Claim C9, as the code has it. Refresh answers 401 when no token is sent, 403 when the
  signature is invalid or the token has expired, and 404 when the user of a valid token
  is not in the table. It answers 200 exactly when all three checks pass, and then with
  a new access token for that user, signed with the access secret and valid for one
  hour.
\<close>

theorem refresh_outcomes:
  "(refreshToken = None \<longrightarrow> refresh cfg s now refreshToken = (401, Message ''Refresh token tidak ada''))
   \<and> (refreshToken = Some t \<and> jwt_key t \<noteq> JWT_REFRESH_SECRET cfg
       \<longrightarrow> refresh cfg s now refreshToken = (403, Message ''Refresh token tidak valid''))
   \<and> (refreshToken = Some t \<and> jwt_exp t \<le> now div 1000
       \<longrightarrow> refresh cfg s now refreshToken = (403, Message ''Refresh token tidak valid''))
   \<and> (refreshToken = Some t \<and> jwt_key t = JWT_REFRESH_SECRET cfg \<and> now div 1000 < jwt_exp t
        \<and> userQuery s (c_userId (jwt_claims t)) = []
       \<longrightarrow> refresh cfg s now refreshToken = (404, Message ''User tidak ditemukan''))
   \<and> (fst (refresh cfg s now refreshToken) = 200
       \<longleftrightarrow> (\<exists>t'. refreshToken = Some t' \<and> jwt_key t' = JWT_REFRESH_SECRET cfg
                 \<and> now div 1000 < jwt_exp t'
                 \<and> userQuery s (c_userId (jwt_claims t')) \<noteq> []))
   \<and> (fst (refresh cfg s now refreshToken) = 200
       \<longrightarrow> (\<exists>newAccessToken user.
              snd (refresh cfg s now refreshToken) = Refreshed newAccessToken user
              \<and> jwt_key newAccessToken = JWT_SECRET cfg
              \<and> jwt_exp newAccessToken = now div 1000 + 3600
              \<and> c_userId (jwt_claims newAccessToken) = up_id user
              \<and> c_role (jwt_claims newAccessToken) = Some (up_role user)))"
  by (auto simp: refresh_def jwt_verify_def jwt_sign_def split: option.splits list.splits)

text \<open>One request for each outcome.\<close>

theorem refresh_outcomes_witness:
  "refresh cfg0 db_open 6000 None = (401, Message ''Refresh token tidak ada'')
   \<and> jwt_key (access_token alice) \<noteq> JWT_REFRESH_SECRET cfg0
   \<and> refresh cfg0 db_open 6000 (Some (access_token alice))
       = (403, Message ''Refresh token tidak valid'')
   \<and> jwt_exp (refresh_token 2) \<le> 604800000 div 1000
   \<and> refresh cfg0 db_open 604800000 (Some (refresh_token 2))
       = (403, Message ''Refresh token tidak valid'')
   \<and> jwt_key (refresh_token 9) = JWT_REFRESH_SECRET cfg0 \<and> 6000 div 1000 < jwt_exp (refresh_token 9)
   \<and> userQuery db_open (c_userId (jwt_claims (refresh_token 9))) = []
   \<and> refresh cfg0 db_open 6000 (Some (refresh_token 9)) = (404, Message ''User tidak ditemukan'')
   \<and> userQuery db_open (c_userId (jwt_claims (refresh_token 2))) \<noteq> []
   \<and> fst (refresh cfg0 db_open 6000 (Some (refresh_token 2))) = 200"
proof -
  have k: "jwt_key (access_token alice) \<noteq> JWT_REFRESH_SECRET cfg0" by (simp add: campus_defs handler_defs)
  have x: "jwt_exp (refresh_token 2) \<le> 604800000 div 1000" by (simp add: campus_defs handler_defs)
  have m: "jwt_key (refresh_token 9) = JWT_REFRESH_SECRET cfg0 \<and> 6000 div 1000 < jwt_exp (refresh_token 9)
     \<and> userQuery db_open (c_userId (jwt_claims (refresh_token 9))) = []"
    by (simp add: campus_defs handler_defs)
  have g: "jwt_key (refresh_token 2) = JWT_REFRESH_SECRET cfg0 \<and> 6000 div 1000 < jwt_exp (refresh_token 2)
     \<and> userQuery db_open (c_userId (jwt_claims (refresh_token 2))) \<noteq> []"
    by (simp add: campus_defs handler_defs)
  have r1: "refresh cfg0 db_open 6000 None = (401, Message ''Refresh token tidak ada'')"
    using refresh_outcomes [of None cfg0 db_open 6000] by simp
  have r2: "refresh cfg0 db_open 6000 (Some (access_token alice))
       = (403, Message ''Refresh token tidak valid'')"
    using refresh_outcomes [of "Some (access_token alice)" cfg0 db_open 6000 "access_token alice"] k
    by blast
  have r3: "refresh cfg0 db_open 604800000 (Some (refresh_token 2))
       = (403, Message ''Refresh token tidak valid'')"
    using refresh_outcomes [of "Some (refresh_token 2)" cfg0 db_open 604800000 "refresh_token 2"] x
    by blast
  have r4: "refresh cfg0 db_open 6000 (Some (refresh_token 9)) = (404, Message ''User tidak ditemukan'')"
    using refresh_outcomes [of "Some (refresh_token 9)" cfg0 db_open 6000 "refresh_token 9"] m
    by blast
  have r5: "fst (refresh cfg0 db_open 6000 (Some (refresh_token 2))) = 200"
    using refresh_outcomes [of "Some (refresh_token 2)" cfg0 db_open 6000 "refresh_token 2"] g
    by blast
  from k x m g r1 r2 r3 r4 r5 show ?thesis by simp
qed

subsection \<open>The status of a new registration\<close>

text \<open>
  Claim C10. The register handler either leaves the Registration table as it is or
  appends one row with status \<^verbatim>\<open>PENDING\<close>, whatever the price of the ticket; no
  earlier row changes, so the handler never sets \<^verbatim>\<open>LUNAS\<close>. When it answers 201 the row
  was appended, and the response reports it with status \<^verbatim>\<open>PENDING\<close>.
\<close>

theorem register_inserts_pending:
  "(registrasi (fst (snd (register_event cfg snap s now token eventId tiket_tipe_id))) = registrasi s
     \<or> (\<exists>user. authenticateToken cfg now token = Inr user
          \<and> registrasi (fst (snd (register_event cfg snap s now token eventId tiket_tipe_id)))
             = registrasi s @
                 [\<lparr>r_id = registrasi_seq s, r_event_id = eventId, r_user_id = c_userId user,
                   r_tiket_tipe_id = tiket_tipe_id, r_status_pembayaran = PENDING,
                   r_qr_code_unik = qrCodeUnik eventId (c_userId user) now\<rparr>]))
   \<and> (fst (fst (register_event cfg snap s now token eventId tiket_tipe_id)) = 201 \<longrightarrow>
        (\<exists>b. snd (fst (register_event cfg snap s now token eventId tiket_tipe_id)) = Registered b
           \<and> p_status_pembayaran (rb_pendaftaran b) = PENDING
           \<and> p_id (rb_pendaftaran b) = registrasi_seq s)
        \<and> length (registrasi (fst (snd (register_event cfg snap s now token eventId tiket_tipe_id))))
            = Suc (length (registrasi s))
        \<and> r_status_pembayaran
             (last (registrasi (fst (snd (register_event cfg snap s now token eventId tiket_tipe_id)))))
            = PENDING)"
  by (auto simp: register_event_def insertRegistrasiQuery_def authenticateToken_def
      server_error_def Let_def
      split: sum.splits option.splits jwt_error.splits list.splits prod.splits if_splits)

text \<open>Alice takes the free ticket: the response says \<^verbatim>\<open>isFree\<close>, the row is \<^verbatim>\<open>PENDING\<close>.\<close>

theorem register_inserts_pending_witness:
  "fst (register_event cfg0 snap0 db_open 3000 (Some (access_token alice)) 1 1)
     = (201, Registered \<lparr>rb_message = ''Pendaftaran berhasil!'',
          rb_pendaftaran = \<lparr>p_id = 1, p_status_pembayaran = PENDING,
                              p_qr_code_unik = ''EVT-1-USR-2-3000''\<rparr>,
          rb_paymentToken = None, rb_paymentUrl = None, rb_isFree = True\<rparr>)
   \<and> registrasi (fst (snd (register_event cfg0 snap0 db_open 3000 (Some (access_token alice)) 1 1)))
     = [alice_row 1 PENDING]
   \<and> r_status_pembayaran
        (last (registrasi (fst (snd (register_event cfg0 snap0 db_open 3000
                                     (Some (access_token alice)) 1 1)))))
     = PENDING"
proof -
  have a: "fst (register_event cfg0 snap0 db_open 3000 (Some (access_token alice)) 1 1)
     = (201, Registered \<lparr>rb_message = ''Pendaftaran berhasil!'',
          rb_pendaftaran = \<lparr>p_id = 1, p_status_pembayaran = PENDING,
                              p_qr_code_unik = ''EVT-1-USR-2-3000''\<rparr>,
          rb_paymentToken = None, rb_paymentUrl = None, rb_isFree = True\<rparr>)"
    by (simp add: campus_defs handler_defs)
  have b: "registrasi (fst (snd (register_event cfg0 snap0 db_open 3000 (Some (access_token alice)) 1 1)))
     = [alice_row 1 PENDING]"
    by (simp add: campus_defs handler_defs)
  from a have c: "fst (fst (register_event cfg0 snap0 db_open 3000 (Some (access_token alice)) 1 1)) = 201"
    by simp
  from register_inserts_pending [of cfg0 snap0 db_open 3000 "Some (access_token alice)" 1 1,
      THEN conjunct2, THEN mp, OF c]
  have "r_status_pembayaran
        (last (registrasi (fst (snd (register_event cfg0 snap0 db_open 3000
                                     (Some (access_token alice)) 1 1)))))
     = PENDING" by blast
  with a b show ?thesis by simp
qed

end
